theory Spec2Isabelle
  imports Main
begin

section \<open>Python values the code relies on\<close>

text \<open>
  The exceptions of \<^verbatim>\<open>version_flow/exceptions.py\<close> and the built-in exceptions the
  code of \<^verbatim>\<open>version_flow/core.py\<close> can raise. \<open>RequestException\<close> wraps an
  exception raised inside \<^verbatim>\<open>requests.get\<close>. The two exceptions whose message is
  formatted from a caught exception \<open>e\<close> carry what the format shows: \<open>ServerResponseErr\<close>
  the whole message, \<open>ReleaseTagErr\<close> the caught exception itself.
\<close>

datatype requests_exception =
    ConnectionError | ProxyError | SSLError | ConnectTimeout
  | ReadTimeout | TooManyRedirects | InvalidURL

datatype error =
    GitHubTokenErr string
  | ServerResponseErr string
  | ReleaseTagErr error
  | FilesNotSetErr string
  | ValueError
  | IndexError
  | KeyError string
  | TypeError
  | AttributeError
  | JSONDecodeError
  | RequestException requests_exception

subsection \<open>Strings: \<^verbatim>\<open>startswith\<close>, \<^verbatim>\<open>split\<close>, \<^verbatim>\<open>int\<close>, \<^verbatim>\<open>format\<close>\<close>

text \<open>
  Strings are lists of ASCII characters. \<^verbatim>\<open>str.split(sep)\<close> with a one-character
  separator cuts at every occurrence and always returns at least one piece.
\<close>

definition startswith :: "string \<Rightarrow> string \<Rightarrow> bool" where
  "startswith s p = (take (length p) s = p)"

fun str_split :: "char \<Rightarrow> string \<Rightarrow> string list" where
  "str_split sep [] = [[]]"
| "str_split sep (c # cs) =
     (if c = sep then [] # str_split sep cs
      else (case str_split sep cs of
              [] \<Rightarrow> [[c]]
            | g # gs \<Rightarrow> (c # g) # gs))"

text \<open>
  \<^verbatim>\<open>int(s)\<close> on an ASCII string, base ten: white space is stripped on both sides, one
  sign may follow, then decimal digits in groups separated by single underscores;
  everything else raises \<^verbatim>\<open>ValueError\<close>. (Digits and white space outside ASCII, and
  the interpreter's configurable limit on the number of digits, are outside this model.)
\<close>

definition isspace :: "char \<Rightarrow> bool" where
  "isspace c = (c \<in> set [CHR '' '', CHR 0x09, CHR 0x0A, CHR 0x0B, CHR 0x0C, CHR 0x0D])"

definition isdigit :: "char \<Rightarrow> bool" where
  "isdigit c = (48 \<le> (of_char c :: nat) \<and> (of_char c :: nat) \<le> 57)"

definition digit_value :: "char \<Rightarrow> nat" where
  "digit_value c = of_char c - 48"

definition strip :: "string \<Rightarrow> string" where
  "strip s = rev (dropWhile isspace (rev (dropWhile isspace s)))"

definition digits_ok :: "string \<Rightarrow> bool" where
  "digits_ok ds = list_all (\<lambda>g. g \<noteq> [] \<and> list_all isdigit g) (str_split CHR ''_'' ds)"

definition digits_value :: "string \<Rightarrow> nat" where
  "digits_value ds = foldl (\<lambda>n c. 10 * n + digit_value c) 0 (filter (\<lambda>c. c \<noteq> CHR ''_'') ds)"

definition py_int :: "string \<Rightarrow> error + int" where
  "py_int s =
     (let t = strip s;
          neg = startswith t ''-'';
          ds = (if startswith t ''+'' \<or> startswith t ''-'' then drop 1 t else t)
      in if digits_ok ds
         then Inr (if neg then - int (digits_value ds) else int (digits_value ds))
         else Inl ValueError)"

text \<open>\<^verbatim>\<open>'{}'.format(n)\<close> for an integer: its decimal digits, with a minus sign when negative.\<close>

definition digit_char :: "nat \<Rightarrow> char" where
  "digit_char d = char_of (48 + d)"

fun str_nat :: "nat \<Rightarrow> string" where
  "str_nat n = (if n < 10 then [digit_char n] else str_nat (n div 10) @ [digit_char (n mod 10)])"

definition str_int :: "int \<Rightarrow> string" where
  "str_int i = (if i < 0 then CHR ''-'' # str_nat (nat (- i)) else str_nat (nat i))"

section \<open>The class \<^verbatim>\<open>Version\<close>\<close>

type_synonym triple = "int \<times> int \<times> int"

record Version =
  version :: string

definition format_version :: "triple \<Rightarrow> string" where
  "format_version t =
     (case t of (major, minor, patch) \<Rightarrow>
        ''v'' @ str_int major @ ''.'' @ str_int minor @ ''.'' @ str_int patch)"

text \<open>
  \<^verbatim>\<open>Version.parse\<close>. \<^verbatim>\<open>parts[0]\<close> raises \<^verbatim>\<open>IndexError\<close> on an empty list (which
  \<^verbatim>\<open>split\<close> never returns); each \<^verbatim>\<open>int(...)\<close> may raise \<^verbatim>\<open>ValueError\<close>. Segments
  after the third are never read.
\<close>

definition parse :: "string \<Rightarrow> error + triple" where
  "parse version0 =
     (let version1 = (if startswith version0 ''v'' then drop 1 version0 else version0);
          parts = str_split CHR ''.'' version1
      in case parts of
           [] \<Rightarrow> Inl IndexError
         | p0 # _ \<Rightarrow>
             (case py_int p0 of
                Inl e \<Rightarrow> Inl e
              | Inr major \<Rightarrow>
                  (case (if length parts > 1 then py_int (parts ! 1) else Inr 0) of
                     Inl e \<Rightarrow> Inl e
                   | Inr minor \<Rightarrow>
                       (case (if length parts > 2 then py_int (parts ! 2) else Inr 0) of
                          Inl e \<Rightarrow> Inl e
                        | Inr patch \<Rightarrow> Inr (major, minor, patch)))))"

text \<open>\<^verbatim>\<open>Version.__init__\<close>: parse, then store the canonical string.\<close>

definition Version_init :: "string \<Rightarrow> error + Version" where
  "Version_init s =
     (case parse s of
        Inl e \<Rightarrow> Inl e
      | Inr parsed \<Rightarrow> Inr \<lparr>version = format_version parsed\<rparr>)"

text \<open>
  Python compares tuples lexicographically; \<^verbatim>\<open>max\<close> of a list keeps the first of its
  greatest elements, replacing the running maximum only by a strictly greater item.
\<close>

definition tuple_gt :: "triple \<Rightarrow> triple \<Rightarrow> bool" where
  "tuple_gt x y =
     (case x of (a1, b1, c1) \<Rightarrow> case y of (a2, b2, c2) \<Rightarrow>
        (if a1 \<noteq> a2 then a1 > a2 else if b1 \<noteq> b2 then b1 > b2 else c1 > c2))"

fun max_from :: "triple \<Rightarrow> triple list \<Rightarrow> triple" where
  "max_from m [] = m"
| "max_from m (x # xs) = max_from (if tuple_gt x m then x else m) xs"

definition max_list :: "triple list \<Rightarrow> error + triple" where
  "max_list xs = (case xs of [] \<Rightarrow> Inl ValueError | x # rest \<Rightarrow> Inr (max_from x rest))"

text \<open>\<^verbatim>\<open>Version.is_greater_than\<close>.\<close>

definition is_greater_than :: "Version \<Rightarrow> string \<Rightarrow> error + bool" where
  "is_greater_than self version_to_check =
     (case parse (version self) of
        Inl e \<Rightarrow> Inl e
      | Inr own \<Rightarrow>
          (case parse version_to_check of
             Inl e \<Rightarrow> Inl e
           | Inr other \<Rightarrow>
               (case max_list [own, other] of
                  Inl e \<Rightarrow> Inl e
                | Inr latest \<Rightarrow> Inr (format_version latest = version self))))"

section \<open>The class \<^verbatim>\<open>VersionFlow\<close>\<close>

subsection \<open>The world outside: requests, responses, warnings\<close>

text \<open>
  A decoded JSON document. Numbers carry no value: no function of the code looks at one.
  An object is the association list of a dictionary, its keys distinct.
\<close>

datatype json =
    JNull
  | JBool bool
  | JNumber
  | JString string
  | JArray "json list"
  | JObject "(string \<times> json) list"

text \<open>\<^verbatim>\<open>release_['tag_name']\<close>: only a dictionary holding the key answers.\<close>

fun getitem :: "json \<Rightarrow> string \<Rightarrow> error + json" where
  "getitem (JObject kvs) k = (case map_of kvs k of None \<Rightarrow> Inl (KeyError k) | Some v \<Rightarrow> Inr v)"
| "getitem _ k = Inl TypeError"

type_synonym headers = "(string \<times> string) list"

record request =
  url :: string
  headers :: "headers option"
  timeout :: "int option"

text \<open>
  What the code reads of a \<^verbatim>\<open>requests\<close> response: \<open>status_code\<close>; whether
  \<^verbatim>\<open>raise_for_status()\<close> raises (\<open>Some d\<close>, with \<open>d\<close> the text of the exception) or
  returns; and what \<^verbatim>\<open>json()\<close> decodes (\<open>None\<close> when the body is not JSON and the
  call raises).
\<close>

record response =
  status_code :: int
  raise_for_status :: "string option"
  json_body :: "json option"

text \<open>
  Modelled from the spec: the module \<^verbatim>\<open>version_flow/warnings.py\<close> is not among the
  sources; \<^verbatim>\<open>core.py\<close> names its two warning categories, the advisories of the
  specification (a credential for a repository not marked private; a missing
  destination directory).
\<close>

datatype warning_category = PrivateRepositoryWarning | DownloadDirectoryWarning

text \<open>
  The observable effects, in order: every \<^verbatim>\<open>requests.get\<close> issued and every warning
  emitted. The network answers a request with a response or an exception, and may
  depend on all that happened before; \<open>cwd\<close> is what \<^verbatim>\<open>os.getcwd()\<close> returns.
\<close>

datatype event = Get request | Warn warning_category string

record env =
  net :: "event list \<Rightarrow> request \<Rightarrow> requests_exception + response"
  cwd :: string

text \<open>
  The classes of \<^verbatim>\<open>requests.exceptions\<close> that an \<^verbatim>\<open>except\<close> clause of the code
  names: \<open>ProxyError\<close>, \<open>SSLError\<close> and \<open>ConnectTimeout\<close> derive from
  \<open>ConnectionError\<close>; \<open>ReadTimeout\<close>, \<open>TooManyRedirects\<close> and \<open>InvalidURL\<close> do not.
\<close>

fun isinstance_ConnectionError :: "requests_exception \<Rightarrow> bool" where
  "isinstance_ConnectionError ConnectionError = True"
| "isinstance_ConnectionError ProxyError = True"
| "isinstance_ConnectionError SSLError = True"
| "isinstance_ConnectionError ConnectTimeout = True"
| "isinstance_ConnectionError _ = False"

fun isinstance_ConnectTimeout :: "requests_exception \<Rightarrow> bool" where
  "isinstance_ConnectTimeout ConnectTimeout = True"
| "isinstance_ConnectTimeout _ = False"

text \<open>Arguments of any type (\<^verbatim>\<open>*update_method_args\<close>) and how \<^verbatim>\<open>'{}'.format\<close> shows them.\<close>

datatype pyval = PyNone | PyBool bool | PyInt int | PyStr string

fun py_format :: "pyval \<Rightarrow> string" where
  "py_format PyNone = ''None''"
| "py_format (PyBool b) = (if b then ''True'' else ''False'')"
| "py_format (PyInt i) = str_int i"
| "py_format (PyStr s) = s"

subsection \<open>The object and its methods\<close>

record VersionFlow =
  internet_status :: bool
  update_available :: bool

definition VersionFlow_init :: VersionFlow where
  "VersionFlow_init = \<lparr>internet_status = False, update_available = False\<rparr>"

text \<open>
  Every method returns its value or the exception that leaves it, the object as the
  call left it, and the effects so far.
\<close>

type_synonym 'a outcome = "(error + 'a) \<times> VersionFlow \<times> event list"

text \<open>\<^verbatim>\<open>check_internet_connection\<close> (it returns \<^verbatim>\<open>self\<close>, here the object of the outcome).\<close>

definition check_internet_connection ::
  "env \<Rightarrow> VersionFlow \<Rightarrow> event list \<Rightarrow> int \<Rightarrow> string \<Rightarrow> unit outcome" where
  "check_internet_connection w self tr timeout_arg server =
     (let req = \<lparr>url = server, headers = None, timeout = Some timeout_arg\<rparr>
      in case net w tr req of
           Inr response \<Rightarrow>
             (Inr (), self\<lparr>internet_status := (status_code response = 200)\<rparr>, tr @ [Get req])
         | Inl e \<Rightarrow>
             if isinstance_ConnectionError e \<or> isinstance_ConnectTimeout e
             then (Inr (), self, tr @ [Get req])
             else (Inl (RequestException e), self, tr @ [Get req]))"

definition api_url :: "string \<Rightarrow> string \<Rightarrow> string \<Rightarrow> string" where
  "api_url username repository release =
     ''https://api.github.com/repos/'' @ username @ ''/'' @ repository @ ''/releases/'' @ release"

definition token_headers :: "string \<Rightarrow> headers" where
  "token_headers api_token =
     [(''Authorization'', ''token '' @ api_token),
      (''Accept'', ''application/vnd.github.v3+json'')]"

text \<open>
  The block that both methods repeat (lines 79 to 100 and 175 to 196): the headers of
  the request and the warning emitted on the way, or \<^verbatim>\<open>GitHubTokenErr\<close>.
\<close>

definition define_headers :: "bool \<Rightarrow> string option \<Rightarrow> error + (headers option \<times> event list)" where
  "define_headers is_private api_token =
     (if is_private \<and> api_token \<noteq> None then Inr (Some (token_headers (the api_token)), [])
      else if is_private \<and> api_token = None then
        Inl (GitHubTokenErr
          ''The private parameter is set to True, however, no API Token was provided.'')
      else if api_token \<noteq> None \<and> \<not> is_private then
        Inr (Some (token_headers (the api_token)),
             [Warn PrivateRepositoryWarning
                ''The private parameter is set to False, however, an API_TOKEN has been provided. This practice is discouraged.''])
      else Inr (None, []))"

definition no_directory_warning :: event where
  "no_directory_warning =
     Warn DownloadDirectoryWarning ''No Download Directory was provided. Defaulting to current.''"

text \<open>
  \<^verbatim>\<open>update_from_github\<close>. The parameters are those of the source, in its order, after
  the world, the object and the effects so far. The method ends after the check of the
  response: it reads neither the list of files, nor the directory, nor the hook.
\<close>

definition update_from_github ::
  "env \<Rightarrow> VersionFlow \<Rightarrow> event list \<Rightarrow> string \<Rightarrow> string \<Rightarrow> string list \<Rightarrow> string option \<Rightarrow>
   pyval \<Rightarrow> bool \<Rightarrow> string option \<Rightarrow> 'h option \<Rightarrow> pyval list \<Rightarrow> unit outcome" where
  "update_from_github w self tr username repository files_to_download download_directory
       target_version is_private if_private_then_api_token update_method update_method_args =
     (let tr1 = (if download_directory = None then tr @ [no_directory_warning] else tr);
          download_directory1 =
            (if download_directory = None then cwd w else the download_directory);
          address = api_url username repository (py_format target_version)
      in case define_headers is_private if_private_then_api_token of
           Inl e \<Rightarrow> (Inl e, self, tr1)
         | Inr (hdrs, warned) \<Rightarrow>
             (let tr2 = tr1 @ warned;
                  req = \<lparr>url = address, headers = hdrs, timeout = None\<rparr>
              in case net w tr2 req of
                   Inl x \<Rightarrow> (Inl (RequestException x), self, tr2 @ [Get req])
                 | Inr response \<Rightarrow>
                     (case raise_for_status response of
                        Some d \<Rightarrow>
                          (Inl (ServerResponseErr (''Failed to connect: '' @ d)), self,
                           tr2 @ [Get req])
                      | None \<Rightarrow> (Inr (), self, tr2 @ [Get req]))))"

text \<open>
  The call of lines 140 to 149: four positional arguments, then the unpacked
  \<^verbatim>\<open>*update_method_args\<close>, then three keywords. Python binds the unpacked arguments
  to the next parameters in order: the first to \<^verbatim>\<open>target_version\<close>, a second one to
  \<^verbatim>\<open>private\<close>, which the keyword then sets again, a \<^verbatim>\<open>TypeError\<close>.
\<close>

definition call_update_from_github ::
  "env \<Rightarrow> VersionFlow \<Rightarrow> event list \<Rightarrow> string \<Rightarrow> string \<Rightarrow> string list \<Rightarrow> string option \<Rightarrow>
   bool \<Rightarrow> string option \<Rightarrow> 'h option \<Rightarrow> pyval list \<Rightarrow> unit outcome" where
  "call_update_from_github w self tr username repository files_to_download download_directory
       is_private if_private_then_api_token update_method update_method_args =
     (case update_method_args of
        [] \<Rightarrow> update_from_github w self tr username repository files_to_download
                download_directory (PyStr ''latest'') is_private if_private_then_api_token
                update_method []
      | [a] \<Rightarrow> update_from_github w self tr username repository files_to_download
                download_directory a is_private if_private_then_api_token update_method []
      | _ \<Rightarrow> (Inl TypeError, self, tr))"

text \<open>\<^verbatim>\<open>Version(release_tag)\<close>: a tag that is no string has no \<^verbatim>\<open>startswith\<close>.\<close>

fun Version_of :: "json \<Rightarrow> error + Version" where
  "Version_of (JString s) = Version_init s"
| "Version_of _ = Inl AttributeError"

fun tag_string :: "json \<Rightarrow> string" where
  "tag_string (JString s) = s"
| "tag_string _ = []"

text \<open>
  \<^verbatim>\<open>check_for_updates_in_github\<close>, in two parts. The second part is lines 123 to 151
  of the method: what it does with the tag once extracted. It returns the tag (\<open>Some\<close>)
  or \<^verbatim>\<open>None\<close>; the flag \<open>update_available\<close> is only ever set, to true.
\<close>

definition check_release_tag ::
  "env \<Rightarrow> VersionFlow \<Rightarrow> event list \<Rightarrow> json \<Rightarrow> string \<Rightarrow> string \<Rightarrow> string \<Rightarrow> bool \<Rightarrow>
   string option \<Rightarrow> bool \<Rightarrow> string list option \<Rightarrow> string option \<Rightarrow> 'h option \<Rightarrow> pyval list \<Rightarrow>
   string option outcome" where
  "check_release_tag w self tr release_tag current_version username repository is_private
       if_private_then_api_token update files_to_download download_directory update_method
       update_method_args =
     (case Version_of release_tag of
        Inl e \<Rightarrow> (Inl e, self, tr)
      | Inr v \<Rightarrow>
          (case is_greater_than v current_version of
             Inl e \<Rightarrow> (Inl e, self, tr)
           | Inr False \<Rightarrow> (Inr None, self, tr)
           | Inr True \<Rightarrow>
               (let self1 = self\<lparr>update_available := True\<rparr>
                in if \<not> update then (Inr (Some (tag_string release_tag)), self1, tr)
                   else if files_to_download = None
                   then (Inl (FilesNotSetErr
                           ''Update parameter is set to True but no Files are provided.''),
                         self1, tr)
                   else
                     (let tr1 = (if download_directory = None
                                 then tr @ [no_directory_warning] else tr);
                          dir = (if download_directory = None
                                 then Some (cwd w) else download_directory)
                      in case call_update_from_github w self1 tr1 username repository
                                (the files_to_download) dir is_private
                                if_private_then_api_token update_method update_method_args of
                           (Inl e, self2, tr2) \<Rightarrow> (Inl e, self2, tr2)
                         | (Inr _, self2, tr2) \<Rightarrow> (Inr None, self2, tr2)))))"

text \<open>
  The whole method, the parameters in the order of the source: the headers, the
  request, the check of the response and the extraction of the tag (lines 76 to 121),
  then the part above.
\<close>

definition check_for_updates_in_github ::
  "env \<Rightarrow> VersionFlow \<Rightarrow> event list \<Rightarrow> string \<Rightarrow> string \<Rightarrow> string \<Rightarrow> string \<Rightarrow> bool \<Rightarrow>
   string option \<Rightarrow> bool \<Rightarrow> string list option \<Rightarrow> string option \<Rightarrow> 'h option \<Rightarrow> pyval list \<Rightarrow>
   string option outcome" where
  "check_for_updates_in_github w self tr current_version username repository release is_private
       if_private_then_api_token update files_to_download download_directory update_method
       update_method_args =
     (case define_headers is_private if_private_then_api_token of
        Inl e \<Rightarrow> (Inl e, self, tr)
      | Inr (hdrs, warned) \<Rightarrow>
          (let tr1 = tr @ warned;
               req = \<lparr>url = api_url username repository release, headers = hdrs, timeout = None\<rparr>;
               tr2 = tr1 @ [Get req]
           in case net w tr1 req of
                Inl x \<Rightarrow> (Inl (RequestException x), self, tr2)
              | Inr response \<Rightarrow>
                  (case raise_for_status response of
                     Some d \<Rightarrow> (Inl (ServerResponseErr (''Failed to connect: '' @ d)), self, tr2)
                   | None \<Rightarrow>
                       (case json_body response of
                          None \<Rightarrow> (Inl JSONDecodeError, self, tr2)
                        | Some release_json \<Rightarrow>
                            (case getitem release_json ''tag_name'' of
                               Inl e \<Rightarrow> (Inl (ReleaseTagErr e), self, tr2)
                             | Inr release_tag \<Rightarrow>
                                 check_release_tag w self tr2 release_tag current_version
                                   username repository is_private if_private_then_api_token
                                   update files_to_download download_directory update_method
                                   update_method_args)))))"

subsection \<open>Worlds for the scenarios\<close>

text \<open>
  A response with status 200 and the given tag, one with an error status, one with
  status 200 and no tag; a network that answers every request alike, and one where
  every request raises.
\<close>

definition release_response :: "string \<Rightarrow> response" where
  "release_response tag =
     \<lparr>status_code = 200, raise_for_status = None,
      json_body = Some (JObject [(''name'', JString ''release''), (''tag_name'', JString tag)])\<rparr>"

definition error_response :: "int \<Rightarrow> string \<Rightarrow> response" where
  "error_response code detail =
     \<lparr>status_code = code, raise_for_status = Some detail, json_body = None\<rparr>"

definition untagged_response :: response where
  "untagged_response =
     \<lparr>status_code = 200, raise_for_status = None,
      json_body = Some (JObject [(''name'', JString ''release'')])\<rparr>"

definition serving :: "response \<Rightarrow> env" where
  "serving r = \<lparr>net = (\<lambda>tr req. Inr r), cwd = ''/home/user''\<rparr>"

definition raising :: "requests_exception \<Rightarrow> env" where
  "raising x = \<lparr>net = (\<lambda>tr req. Inl x), cwd = ''/home/user''\<rparr>"

section \<open>Facts about strings and integers\<close>

text \<open>
  Splitting, and the decimal text of an integer: \<^verbatim>\<open>int\<close> reads back what
  \<^verbatim>\<open>format\<close> writes, so the canonical string of a triple parses to that triple.
\<close>

lemma str_split_ne: "str_split sep s \<noteq> []"
  by (induction s) (auto split: list.splits)

lemma str_split_nosep: "sep \<notin> set s \<Longrightarrow> str_split sep s = [s]"
  by (induction s) auto

lemma str_split_append: "sep \<notin> set a \<Longrightarrow> str_split sep (a @ sep # r) = a # str_split sep r"
  by (induction a) (auto simp: str_split_ne split: list.splits)

lemma digit_char_props: "d < 10 \<Longrightarrow> isdigit (digit_char d) \<and> digit_value (digit_char d) = d"
  by (simp add: isdigit_def digit_char_def digit_value_def)

lemma str_nat_digits: "list_all isdigit (str_nat n)"
  by (induction n rule: str_nat.induct) (subst str_nat.simps, simp add: digit_char_props)

lemma str_nat_ne: "str_nat n \<noteq> []"
  by (subst str_nat.simps) simp

lemma foldl_str_nat: "foldl (\<lambda>n c. 10 * n + digit_value c) 0 (str_nat n) = n"
proof (induction n rule: str_nat.induct)
  case (1 n)
  show ?case
  proof (cases "n < 10")
    case True
    then show ?thesis by (subst str_nat.simps) (simp add: digit_char_props)
  next
    case False
    with 1 show ?thesis by (subst str_nat.simps) (simp add: digit_char_props)
  qed
qed

lemma isdigit_plain:
  "isdigit c \<Longrightarrow>
   \<not> isspace c \<and> c \<noteq> CHR ''_'' \<and> c \<noteq> CHR ''.'' \<and> c \<noteq> CHR ''-'' \<and> c \<noteq> CHR ''+''"
  by (auto simp: isdigit_def isspace_def)

lemma digits_value_digits:
  "list_all isdigit s \<Longrightarrow>
   digits_value s = foldl (\<lambda>n c. 10 * n + digit_value c) 0 s \<and>
   CHR ''_'' \<notin> set s \<and> CHR ''.'' \<notin> set s"
proof -
  assume a: "list_all isdigit s"
  then have "\<forall>c\<in>set s. c \<noteq> CHR ''_'' \<and> c \<noteq> CHR ''.''"
    using isdigit_plain by (auto simp: list_all_iff)
  then have "filter (\<lambda>c. c \<noteq> CHR ''_'') s = s" "CHR ''_'' \<notin> set s" "CHR ''.'' \<notin> set s"
    by (auto simp: filter_id_conv)
  then show ?thesis by (simp add: digits_value_def)
qed

lemma strip_id: "s \<noteq> [] \<Longrightarrow> \<not> isspace (hd s) \<Longrightarrow> \<not> isspace (last s) \<Longrightarrow> strip s = s"
proof -
  assume a: "s \<noteq> []" "\<not> isspace (hd s)" "\<not> isspace (last s)"
  have 1: "dropWhile isspace s = s" using a by (simp add: dropWhile_eq_self_iff)
  have "hd (rev s) = last s" using a by (simp add: hd_rev)
  then have 2: "dropWhile isspace (rev s) = rev s" using a by (simp add: dropWhile_eq_self_iff)
  show ?thesis by (simp add: strip_def 1 2)
qed

lemma py_int_digits:
  assumes "s \<noteq> []" "list_all isdigit s"
  shows "py_int s = Inr (int (digits_value s))" and "py_int (CHR ''-'' # s) = Inr (- int (digits_value s))"
proof -
  have hd: "isdigit (hd s)" "isdigit (last s)" using assms by (auto simp: list_all_iff)
  have nosp: "\<not> isspace (hd s)" "\<not> isspace (last s)" "hd s \<noteq> CHR ''-''" "hd s \<noteq> CHR ''+''"
    using hd isdigit_plain by blast+
  have st: "strip s = s" using assms nosp by (simp add: strip_id)
  have st2: "strip (CHR ''-'' # s) = CHR ''-'' # s"
    using assms nosp by (intro strip_id) (simp_all add: isspace_def)
  have nsw: "\<not> startswith s ''-''" "\<not> startswith s ''+''"
    using assms nosp by (cases s; simp add: startswith_def)+
  have ok: "digits_ok s"
    using assms digits_value_digits[OF assms(2)] by (simp add: digits_ok_def str_split_nosep)
  show "py_int s = Inr (int (digits_value s))"
    by (simp add: py_int_def st nsw ok)
  show "py_int (CHR ''-'' # s) = Inr (- int (digits_value s))"
    by (simp add: py_int_def st2 startswith_def ok)
qed

lemma py_int_str_int: "py_int (str_int i) = Inr i"
proof (cases "i < 0")
  case True
  have "digits_value (str_nat (nat (- i))) = nat (- i)"
    using digits_value_digits[OF str_nat_digits] foldl_str_nat by simp
  then show ?thesis using True py_int_digits(2)[OF str_nat_ne str_nat_digits, of "nat (- i)"]
    by (simp add: str_int_def)
next
  case False
  have "digits_value (str_nat (nat i)) = nat i"
    using digits_value_digits[OF str_nat_digits] foldl_str_nat by simp
  then show ?thesis using False py_int_digits(1)[OF str_nat_ne str_nat_digits, of "nat i"]
    by (simp add: str_int_def)
qed

lemma str_int_nodot: "CHR ''.'' \<notin> set (str_int i)"
  using digits_value_digits[OF str_nat_digits] by (simp add: str_int_def)

lemma parse_format_version: "parse (format_version t) = Inr t"
proof -
  obtain a b c where t: "t = (a, b, c)" by (cases t)
  have sp: "str_split CHR ''.'' (str_int a @ CHR ''.'' # str_int b @ CHR ''.'' # str_int c)
            = [str_int a, str_int b, str_int c]"
    by (simp add: str_split_append str_split_nosep str_int_nodot)
  show ?thesis
    by (simp add: t parse_def format_version_def startswith_def sp py_int_str_int)
qed

lemma format_version_inj: "format_version s = format_version t \<Longrightarrow> s = t"
  by (metis parse_format_version sum.inject(2))

text \<open>
  The only error of \<^verbatim>\<open>int\<close>, \<^verbatim>\<open>parse\<close> and \<^verbatim>\<open>is_greater_than\<close> is \<^verbatim>\<open>ValueError\<close>;
  a segment holding a character that is no digit, sign, underscore or white space is
  rejected; and on a canonical \<^verbatim>\<open>Version\<close> the method \<^verbatim>\<open>is_greater_than\<close> answers
  whether the other triple is not greater than its own.
\<close>

lemma py_int_error: "py_int s = Inl e \<Longrightarrow> e = ValueError"
  by (auto simp: py_int_def Let_def split: if_splits)

lemma str_int_hd: "str_int i \<noteq> [] \<and> hd (str_int i) \<noteq> CHR ''v''"
proof -
  have "isdigit (hd (str_nat n))" for n
    using str_nat_digits[of n] str_nat_ne[of n] by (cases "str_nat n") auto
  moreover have "\<not> isdigit CHR ''v''"
    by (simp add: isdigit_def)
  ultimately have "hd (str_nat n) \<noteq> CHR ''v''" for n
    by metis
  then show ?thesis by (simp add: str_int_def str_nat_ne)
qed

lemma str_int_not_v: "\<not> startswith (str_int i) ''v''"
  using str_int_hd[of i] by (cases "str_int i") (auto simp: startswith_def)

lemma str_int_append_not_v: "\<not> startswith (str_int i @ r) ''v''"
  using str_int_hd[of i] by (cases "str_int i") (auto simp: startswith_def)

lemma tuple_gt_irrefl: "\<not> tuple_gt x x"
  by (cases x) (simp add: tuple_gt_def)

lemma is_greater_than_canonical:
  assumes "parse other = Inr y"
  shows "is_greater_than \<lparr>version = format_version x\<rparr> other = Inr (\<not> tuple_gt y x)"
proof -
  have "format_version y \<noteq> format_version x" if "tuple_gt y x"
    using that format_version_inj tuple_gt_irrefl by blast
  then show ?thesis
    using assms by (simp add: is_greater_than_def parse_format_version max_list_def)
qed

lemma first_error:
  fixes a b c :: "error + int"
  assumes "\<And>e. a = Inl e \<Longrightarrow> e = ValueError" and "\<And>e. b = Inl e \<Longrightarrow> e = ValueError"
    and "a = Inl ValueError \<or> b = Inl ValueError \<or> c = Inl ValueError"
  shows "(case a of Inl e \<Rightarrow> Inl e
          | Inr x \<Rightarrow> (case b of Inl e \<Rightarrow> Inl e
                     | Inr y \<Rightarrow> (case c of Inl e \<Rightarrow> Inl e | Inr z \<Rightarrow> Inr (x, y, z))))
         = Inl ValueError"
  using assms by (cases a; cases b; cases c) auto

lemma parse_error: "parse s = Inl e \<Longrightarrow> e = ValueError"
proof -
  assume a: "parse s = Inl e"
  obtain p0 rest where ps: "str_split CHR ''.'' (if startswith s ''v'' then drop 1 s else s) = p0 # rest"
    using str_split_ne[of "CHR ''.''"] by (meson list.exhaust)
  show ?thesis using a py_int_error unfolding parse_def Let_def ps
    by (auto split: sum.splits if_splits)
qed

lemma is_greater_than_error: "is_greater_than v s = Inl e \<Longrightarrow> e = ValueError"
  using parse_error by (auto simp: is_greater_than_def max_list_def split: sum.splits)

lemma Version_of_error: "Version_of j = Inl e \<Longrightarrow> e = ValueError \<or> e = AttributeError"
  using parse_error by (cases j) (auto simp: Version_init_def split: sum.splits)

lemma in_dropWhile: "x \<in> set xs \<Longrightarrow> \<not> P x \<Longrightarrow> x \<in> set (dropWhile P xs)"
  by (induction xs) auto

lemma in_strip: "c \<in> set s \<Longrightarrow> \<not> isspace c \<Longrightarrow> c \<in> set (strip s)"
  by (simp add: strip_def in_dropWhile)

lemma in_str_split: "c \<in> set s \<Longrightarrow> c \<noteq> sep \<Longrightarrow> \<exists>g \<in> set (str_split sep s). c \<in> set g"
proof (induction s)
  case Nil
  then show ?case by simp
next
  case (Cons a s)
  obtain g gs where sp: "str_split sep s = g # gs"
    using str_split_ne[of sep s] by (cases "str_split sep s") auto
  show ?case
  proof (cases "c = a")
    case True
    then show ?thesis using Cons.prems sp by auto
  next
    case False
    then have "\<exists>g \<in> set (str_split sep s). c \<in> set g" using Cons by auto
    then show ?thesis using sp by (cases "a = sep") auto
  qed
qed

lemma py_int_foreign_char:
  assumes "c \<in> set s" and "\<not> isdigit c" and "\<not> isspace c"
    and "c \<noteq> CHR ''+''" and "c \<noteq> CHR ''-''" and "c \<noteq> CHR ''_''"
  shows "py_int s = Inl ValueError"
proof -
  define t where "t = strip s"
  define ds where "ds = (if startswith t ''+'' \<or> startswith t ''-'' then drop 1 t else t)"
  have ct: "c \<in> set t" using assms(1,3) by (simp add: t_def in_strip)
  have "c \<in> set ds"
  proof (cases t)
    case Nil
    then show ?thesis using ct by simp
  next
    case (Cons a r)
    then show ?thesis using ct assms(4,5) by (auto simp: ds_def startswith_def)
  qed
  then obtain g where "g \<in> set (str_split CHR ''_'' ds)" "c \<in> set g"
    using in_str_split assms(6) by metis
  then have "\<not> digits_ok ds"
    using assms(2) by (auto simp: digits_ok_def list_all_iff)
  moreover have "py_int s = (if digits_ok ds
         then Inr (if startswith t ''-'' then - int (digits_value ds) else int (digits_value ds))
         else Inl ValueError)"
    unfolding py_int_def Let_def ds_def t_def by (rule refl)
  ultimately show ?thesis by simp
qed

lemma is_greater_than_ge:
  assumes "parse a = Inr x" and "parse b = Inr y"
  shows "\<exists>v. Version_init a = Inr v \<and> is_greater_than v b = Inr (\<not> tuple_gt y x)"
  using assms is_greater_than_canonical[OF assms(2), of x] by (simp add: Version_init_def)

section \<open>Properties of \<^verbatim>\<open>Version\<close>\<close>

text \<open>
  Claim C9. \<^verbatim>\<open>parse\<close> strips one leading \<open>v\<close> if present and defaults the missing
  minor and patch components to 0: the three examples of the specification evaluate
  to \<open>(1,2,3)\<close>, \<open>(2,0,0)\<close> and \<open>(3,4,0)\<close>; more generally, the decimal text of one,
  two or three integers joined by dots, with or without a leading \<open>v\<close>, parses to those
  integers, padded with zeros. Only one \<open>v\<close> is stripped: a second one is a malformed
  first segment.
\<close>

theorem parse_examples:
  "parse ''v1.2.3'' = Inr (1, 2, 3) \<and> parse ''2'' = Inr (2, 0, 0) \<and>
   parse ''v3.4'' = Inr (3, 4, 0) \<and> parse ''vv3.4'' = Inl ValueError \<and>
   parse (str_int a) = Inr (a, 0, 0) \<and>
   parse (''v'' @ str_int a) = Inr (a, 0, 0) \<and>
   parse (str_int a @ ''.'' @ str_int b) = Inr (a, b, 0) \<and>
   parse (''v'' @ str_int a @ ''.'' @ str_int b) = Inr (a, b, 0) \<and>
   parse (str_int a @ ''.'' @ str_int b @ ''.'' @ str_int c) = Inr (a, b, c) \<and>
   parse (''v'' @ str_int a @ ''.'' @ str_int b @ ''.'' @ str_int c) = Inr (a, b, c)"
proof -
  have e1: "parse ''v1.2.3'' = Inr (1, 2, 3)" by code_simp
  have e2: "parse ''2'' = Inr (2, 0, 0)" by code_simp
  have e3: "parse ''v3.4'' = Inr (3, 4, 0)" by code_simp
  have e4: "parse ''vv3.4'' = Inl ValueError" by code_simp
  have s1: "str_split CHR ''.'' (str_int a) = [str_int a]"
    by (simp add: str_split_nosep str_int_nodot)
  have s2: "str_split CHR ''.'' (str_int a @ CHR ''.'' # str_int b) = [str_int a, str_int b]"
    by (simp add: str_split_append str_split_nosep str_int_nodot)
  have s3: "str_split CHR ''.'' (str_int a @ CHR ''.'' # str_int b @ CHR ''.'' # str_int c)
            = [str_int a, str_int b, str_int c]"
    by (simp add: str_split_append str_split_nosep str_int_nodot)
  have g1: "parse (str_int a) = Inr (a, 0, 0)"
    by (simp add: parse_def str_int_not_v s1 py_int_str_int)
  have g2: "parse (''v'' @ str_int a) = Inr (a, 0, 0)"
    by (simp add: parse_def startswith_def s1 py_int_str_int)
  have g3: "parse (str_int a @ ''.'' @ str_int b) = Inr (a, b, 0)"
    by (simp add: parse_def str_int_append_not_v s2 py_int_str_int)
  have g4: "parse (''v'' @ str_int a @ ''.'' @ str_int b) = Inr (a, b, 0)"
    by (simp add: parse_def startswith_def s2 py_int_str_int)
  have g5: "parse (str_int a @ ''.'' @ str_int b @ ''.'' @ str_int c) = Inr (a, b, c)"
    by (simp add: parse_def str_int_append_not_v s3 py_int_str_int)
  have g6: "parse (''v'' @ str_int a @ ''.'' @ str_int b @ ''.'' @ str_int c) = Inr (a, b, c)"
    by (simp add: parse_def startswith_def s3 py_int_str_int)
  show ?thesis using e1 e2 e3 e4 g1 g2 g3 g4 g5 g6 by blast
qed

text \<open>
  Claim C10. For every string \<open>s\<close> that \<^verbatim>\<open>parse\<close> accepts, the constructor stores the
  canonical string \<^verbatim>\<open>v{major}.{minor}.{patch}\<close> of the parsed triple; parsing the
  stored string gives the triple of \<open>s\<close> again, and constructing a \<^verbatim>\<open>Version\<close> from
  the stored string gives the same object.
\<close>

theorem version_init_roundtrip:
  assumes "parse s = Inr (major, minor, patch)"
  shows "\<exists>v. Version_init s = Inr v \<and>
             version v = ''v'' @ str_int major @ ''.'' @ str_int minor @ ''.'' @ str_int patch \<and>
             parse (version v) = parse s \<and> Version_init (version v) = Inr v"
proof -
  let ?canonical = "format_version (major, minor, patch)"
  have "Version_init s = Inr \<lparr>version = ?canonical\<rparr>"
    using assms by (simp add: Version_init_def)
  moreover have "?canonical = ''v'' @ str_int major @ ''.'' @ str_int minor @ ''.'' @ str_int patch"
    by (simp add: format_version_def)
  moreover have "parse ?canonical = parse s"
    using assms by (simp add: parse_format_version)
  moreover have "Version_init ?canonical = Inr \<lparr>version = ?canonical\<rparr>"
    by (simp add: Version_init_def parse_format_version)
  ultimately show ?thesis by (metis Version.select_convs(1))
qed

theorem version_init_roundtrip_witness:
  "parse '' +1_0.2'' = Inr (10, 2, 0) \<and>
   (\<exists>v. Version_init '' +1_0.2'' = Inr v \<and> version v = ''v10.2.0'' \<and>
        parse (version v) = parse '' +1_0.2'' \<and> Version_init (version v) = Inr v)"
proof -
  have h: "parse '' +1_0.2'' = Inr (10, 2, 0)" by code_simp
  have f: "''v'' @ str_int 10 @ ''.'' @ str_int 2 @ ''.'' @ str_int 0 = ''v10.2.0''" by code_simp
  show ?thesis using version_init_roundtrip[OF h] h f by simp
qed

text \<open>
  Claim C6, as the code has it. If one of the first three dot-separated segments (after
  one leading \<open>v\<close> is stripped) is not accepted by \<^verbatim>\<open>int\<close>, \<^verbatim>\<open>parse\<close> fails with
  \<^verbatim>\<open>ValueError\<close>, the malformed-version error of the code.
\<close>

theorem parse_rejects_bad_segment:
  assumes "i < 3"
    and "i < length (str_split CHR ''.'' (if startswith s ''v'' then drop 1 s else s))"
    and "py_int (str_split CHR ''.'' (if startswith s ''v'' then drop 1 s else s) ! i) = Inl ValueError"
  shows "parse s = Inl ValueError"
proof -
  define parts where "parts = str_split CHR ''.'' (if startswith s ''v'' then drop 1 s else s)"
  define a where "a = py_int (parts ! 0)"
  define b where "b = (if length parts > 1 then py_int (parts ! 1) else Inr 0)"
  define c where "c = (if length parts > 2 then py_int (parts ! 2) else Inr 0)"
  obtain p0 rest where ps: "parts = p0 # rest"
    using str_split_ne[of "CHR ''.''"] by (cases parts) (auto simp: parts_def)
  have bad: "py_int (parts ! i) = Inl ValueError" and len: "i < length parts"
    using assms by (simp_all add: parts_def)
  have "parse s = (case parts of
           [] \<Rightarrow> Inl IndexError
         | p0 # _ \<Rightarrow>
             (case py_int p0 of
                Inl e \<Rightarrow> Inl e
              | Inr major \<Rightarrow>
                  (case b of
                     Inl e \<Rightarrow> Inl e
                   | Inr minor \<Rightarrow>
                       (case c of
                          Inl e \<Rightarrow> Inl e
                        | Inr patch \<Rightarrow> Inr (major, minor, patch)))))"
    unfolding parse_def Let_def parts_def b_def c_def by (rule refl)
  then have p: "parse s = (case a of Inl e \<Rightarrow> Inl e
          | Inr x \<Rightarrow> (case b of Inl e \<Rightarrow> Inl e
                     | Inr y \<Rightarrow> (case c of Inl e \<Rightarrow> Inl e | Inr z \<Rightarrow> Inr (x, y, z))))"
    by (simp add: ps a_def)
  have ea: "e = ValueError" if "a = Inl e" for e
    using that py_int_error by (simp add: a_def)
  have eb: "e = ValueError" if "b = Inl e" for e
    using that py_int_error by (simp add: b_def split: if_splits)
  consider "i = 0" | "i = 1" | "i = 2" using assms(1) by linarith
  then have "a = Inl ValueError \<or> b = Inl ValueError \<or> c = Inl ValueError"
  proof cases
    case 1
    then show ?thesis using bad by (simp add: a_def)
  next
    case 2
    then show ?thesis using bad len by (simp add: b_def)
  next
    case 3
    then show ?thesis using bad len by (simp add: c_def)
  qed
  then show ?thesis unfolding p using ea eb by (rule first_error[rotated 2])
qed

theorem parse_rejects_bad_segment_witness:
  "(0::nat) < 3 \<and> py_int ''abc'' = Inl ValueError \<and> parse ''abc'' = Inl ValueError"
proof -
  have a: "(0::nat) < length (str_split CHR ''.'' (if startswith ''abc'' ''v'' then drop 1 ''abc'' else ''abc''))"
    by code_simp
  have b: "py_int (str_split CHR ''.'' (if startswith ''abc'' ''v'' then drop 1 ''abc'' else ''abc'') ! 0) = Inl ValueError"
    by code_simp
  have c: "py_int ''abc'' = Inl ValueError" by code_simp
  show ?thesis using parse_rejects_bad_segment[OF _ a b] c by simp
qed

text \<open>
  Claim C6 as first stated speaks of any present segment. A fourth segment is never
  read: \<^verbatim>\<open>parse("1.2.3.abc")\<close> returns \<open>(1,2,3)\<close> although \<^verbatim>\<open>int("abc")\<close> fails.
\<close>

theorem parse_ignores_later_segments:
  "str_split CHR ''.'' ''1.2.3.abc'' = [''1'', ''2'', ''3'', ''abc''] \<and>
   py_int ''abc'' = Inl ValueError \<and> parse ''1.2.3.abc'' = Inr (1, 2, 3)"
  by code_simp

text \<open>
  Claim C1 says that \<^verbatim>\<open>is_greater_than\<close> is strict: equal versions give false. The
  method compares the canonical string of the greater triple with its own, so on equal
  versions it answers true: \<^verbatim>\<open>Version("1.0.0").is_greater_than("1.0.0")\<close>.
\<close>

theorem is_greater_than_equal_versions:
  "Version_init ''1.0.0'' = Inr \<lparr>version = ''v1.0.0''\<rparr> \<and>
   is_greater_than \<lparr>version = ''v1.0.0''\<rparr> ''1.0.0'' = Inr True"
  by code_simp

section \<open>Facts about the methods\<close>

text \<open>
  The four cases of the credential block; every call extends the list of effects it was
  given, and once the headers are defined no later step raises \<^verbatim>\<open>GitHubTokenErr\<close>.
\<close>

lemma define_headers_simps:
  "define_headers True None = Inl (GitHubTokenErr ''The private parameter is set to True, however, no API Token was provided.'')"
  "define_headers True (Some t) = Inr (Some (token_headers t), [])"
  "define_headers False (Some t) = Inr (Some (token_headers t), [Warn PrivateRepositoryWarning
                ''The private parameter is set to False, however, an API_TOKEN has been provided. This practice is discouraged.''])"
  "define_headers False None = Inr (None, [])"
  by (simp_all add: define_headers_def)

lemma update_from_github_trace:
  "define_headers p tok = Inr (hdrs, warned) \<Longrightarrow>
   \<exists>res. update_from_github w self tr u r files dd tv p tok m args =
     (res, self, (if dd = None then tr @ [no_directory_warning] else tr) @ warned @
        [Get \<lparr>url = api_url u r (py_format tv), headers = hdrs, timeout = None\<rparr>])
     \<and> (\<forall>e. res \<noteq> Inl (GitHubTokenErr e))"
  by (auto simp: update_from_github_def Let_def split: sum.splits option.splits)

lemma call_update_from_github_trace:
  "define_headers p tok = Inr (hdrs, warned) \<Longrightarrow>
   \<exists>res self' rest. call_update_from_github w self tr u r files dd p tok m args = (res, self', tr @ rest)
     \<and> (\<forall>e. res \<noteq> Inl (GitHubTokenErr e))"
proof -
  assume a: "define_headers p tok = Inr (hdrs, warned)"
  show ?thesis
  proof (cases args)
    case Nil
    then show ?thesis using update_from_github_trace[OF a, of w self tr u r files dd "PyStr ''latest''" m "[]"]
      by (auto simp: call_update_from_github_def)
  next
    case (Cons x xs)
    then show ?thesis using update_from_github_trace[OF a, of w self tr u r files dd x m "[]"]
      by (cases xs) (auto simp: call_update_from_github_def)
  qed
qed

lemma check_release_tag_trace:
  assumes a: "define_headers p tok = Inr (hdrs, warned)"
  shows "\<exists>res self' rest. check_release_tag w self tr tag cv u r p tok upd fs dd m args =
     (res, self', tr @ rest) \<and> (\<forall>e. res \<noteq> Inl (GitHubTokenErr e))"
proof (cases "Version_of tag")
  case (Inl e)
  then show ?thesis using Version_of_error[OF Inl] by (auto simp: check_release_tag_def)
next
  case (Inr v)
  show ?thesis
  proof (cases "is_greater_than v cv")
    case (Inl e)
    then show ?thesis using Inr is_greater_than_error[OF Inl] by (auto simp: check_release_tag_def)
  next
    case gt: (Inr b)
    show ?thesis
    proof (cases "b \<and> upd \<and> fs \<noteq> None")
      case False
      then show ?thesis using Inr gt by (cases b) (auto simp: check_release_tag_def Let_def)
    next
      case True
      then obtain files where fs: "fs = Some files" and b: "b" and upd: "upd" by auto
      let ?tr1 = "if dd = None then tr @ [no_directory_warning] else tr"
      let ?dir = "if dd = None then Some (cwd w) else dd"
      obtain res self' rest where c: "call_update_from_github w (self\<lparr>update_available := True\<rparr>) ?tr1
           u r (the fs) ?dir p tok m args = (res, self', ?tr1 @ rest)" and ne: "\<forall>e. res \<noteq> Inl (GitHubTokenErr e)"
        using call_update_from_github_trace[OF a] by blast
      have "check_release_tag w self tr tag cv u r p tok upd fs dd m args =
            (case res of Inl e \<Rightarrow> Inl e | Inr _ \<Rightarrow> Inr None, self', ?tr1 @ rest)"
        using Inr gt c by (cases res) (simp_all add: check_release_tag_def Let_def fs b upd)
      moreover have "\<exists>rest'. ?tr1 @ rest = tr @ rest'" by simp
      moreover have "\<forall>e. (case res of Inl e \<Rightarrow> Inl e | Inr _ \<Rightarrow> Inr None) \<noteq> Inl (GitHubTokenErr e)"
        using ne by (cases res) auto
      ultimately show ?thesis by metis
    qed
  qed
qed

lemma check_trace:
  assumes a: "define_headers p tok = Inr (hdrs, warned)"
  shows "\<exists>res self' rest. check_for_updates_in_github w self tr cv u r rel p tok upd fs dd m args =
     (res, self', tr @ warned @ [Get \<lparr>url = api_url u r rel, headers = hdrs, timeout = None\<rparr>] @ rest)
     \<and> (\<forall>e. res \<noteq> Inl (GitHubTokenErr e))"
proof -
  let ?req = "\<lparr>url = api_url u r rel, headers = hdrs, timeout = None\<rparr>"
  let ?tr2 = "(tr @ warned) @ [Get ?req]"
  have c: "\<exists>res self' rest. check_release_tag w self ?tr2 tag cv u r p tok upd fs dd m args
      = (res, self', tr @ warned @ [Get ?req] @ rest) \<and> (\<forall>e. res \<noteq> Inl (GitHubTokenErr e))" for tag
    using check_release_tag_trace[OF a, of w self ?tr2 tag cv u r upd fs dd m args] by auto
  show ?thesis
    unfolding check_for_updates_in_github_def Let_def a
    using c by (simp split: sum.splits option.splits)
qed

lemma update_from_github_ignores_files_and_hook:
  "update_from_github w self tr u r files dd tv p tok m args =
   update_from_github w self tr u r [] dd tv p tok (None :: unit option) []"
  by (simp add: update_from_github_def)

section \<open>Properties of \<^verbatim>\<open>VersionFlow\<close>\<close>

text \<open>
  Claim C5, as the code has it. When the GET of \<^verbatim>\<open>check_internet_connection\<close>
  raises \<^verbatim>\<open>requests.ConnectionError\<close> or one of its subclasses (among them
  \<^verbatim>\<open>ConnectTimeout\<close>), the exception is swallowed and \<open>internet_status\<close> is left as
  it was (false on a new object); when the GET returns a response, \<open>internet_status\<close>
  becomes true exactly when the status code is 200.
\<close>

theorem probe_outcome:
  "(net w tr \<lparr>url = server, headers = None, timeout = Some t\<rparr> = Inl x \<and>
      isinstance_ConnectionError x \<longrightarrow>
      check_internet_connection w self tr t server =
        (Inr (), self, tr @ [Get \<lparr>url = server, headers = None, timeout = Some t\<rparr>]))
   \<and> (net w tr \<lparr>url = server, headers = None, timeout = Some t\<rparr> = Inr response \<longrightarrow>
      check_internet_connection w self tr t server =
        (Inr (), self\<lparr>internet_status := (status_code response = 200)\<rparr>,
         tr @ [Get \<lparr>url = server, headers = None, timeout = Some t\<rparr>]))"
  by (simp add: check_internet_connection_def)

theorem probe_outcome_witness:
  "check_internet_connection (raising ConnectTimeout) VersionFlow_init [] 3 ''https://www.google.com'' =
     (Inr (), VersionFlow_init,
      [Get \<lparr>url = ''https://www.google.com'', headers = None, timeout = Some 3\<rparr>])
   \<and> check_internet_connection (serving (release_response [])) VersionFlow_init [] 3
       ''https://www.google.com'' =
     (Inr (), \<lparr>internet_status = True, update_available = False\<rparr>,
      [Get \<lparr>url = ''https://www.google.com'', headers = None, timeout = Some 3\<rparr>])
   \<and> check_internet_connection (serving (error_response 404 ''Not Found''))
       \<lparr>internet_status = True, update_available = False\<rparr> [] 3 ''https://www.google.com'' =
     (Inr (), \<lparr>internet_status = False, update_available = False\<rparr>,
      [Get \<lparr>url = ''https://www.google.com'', headers = None, timeout = Some 3\<rparr>])"
proof -
  have a: "net (raising ConnectTimeout) []
             \<lparr>url = ''https://www.google.com'', headers = None, timeout = Some 3\<rparr> = Inl ConnectTimeout
           \<and> isinstance_ConnectionError ConnectTimeout"
    by (simp add: raising_def)
  have b: "net (serving x) [] \<lparr>url = ''https://www.google.com'', headers = None, timeout = Some 3\<rparr>
           = Inr x" for x
    by (simp add: serving_def)
  have s: "status_code (release_response []) = 200" "status_code (error_response 404 ''Not Found'') = 404"
    by (simp_all add: release_response_def error_response_def)
  show ?thesis
    using probe_outcome[of "raising ConnectTimeout" "[]" "''https://www.google.com''" 3 ConnectTimeout
            VersionFlow_init] a
          probe_outcome[of "serving (release_response [])" "[]" "''https://www.google.com''" 3 _
            VersionFlow_init "release_response []"] b
          probe_outcome[of "serving (error_response 404 ''Not Found'')" "[]" "''https://www.google.com''" 3 _
            "\<lparr>internet_status = True, update_available = False\<rparr>" "error_response 404 ''Not Found''"] 
    by (simp add: s VersionFlow_init_def)
qed

text \<open>
  Claim C5 as first stated speaks of any transport exception and of a status that stays
  false. A read timeout is no \<^verbatim>\<open>ConnectionError\<close>: it leaves the method. And a
  swallowed exception leaves a status that an earlier probe set to true.
\<close>

theorem probe_read_timeout_or_stale_flag:
  "check_internet_connection (raising ReadTimeout) VersionFlow_init [] 3 ''https://www.google.com'' =
     (Inl (RequestException ReadTimeout), VersionFlow_init,
      [Get \<lparr>url = ''https://www.google.com'', headers = None, timeout = Some 3\<rparr>])
   \<and> check_internet_connection (raising ConnectionError)
       \<lparr>internet_status = True, update_available = False\<rparr> [] 3 ''https://www.google.com'' =
     (Inr (), \<lparr>internet_status = True, update_available = False\<rparr>,
      [Get \<lparr>url = ''https://www.google.com'', headers = None, timeout = Some 3\<rparr>])"
  by code_simp

text \<open>
  Claim C7. For both methods: with \<^verbatim>\<open>private=True\<close> and no token the call fails with
  \<^verbatim>\<open>GitHubTokenErr\<close> and issues no request (\<^verbatim>\<open>update_from_github\<close> may have warned
  about the directory before); with \<^verbatim>\<open>private=True\<close> and a token the request carries
  the \<^verbatim>\<open>Authorization\<close> header; with \<^verbatim>\<open>private=False\<close> and a token the warning is
  emitted, the request that follows still carries the header, and the call does not
  fail with \<^verbatim>\<open>GitHubTokenErr\<close>.
\<close>

theorem credential_validation:
  "check_for_updates_in_github w self tr cv u r rel True None upd fs dd m args =
     (Inl (GitHubTokenErr
        ''The private parameter is set to True, however, no API Token was provided.''), self, tr)
   \<and> update_from_github w self tr u r files dd tv True None m args =
     (Inl (GitHubTokenErr
        ''The private parameter is set to True, however, no API Token was provided.''), self,
      if dd = None then tr @ [no_directory_warning] else tr)
   \<and> (\<exists>res self' rest.
        check_for_updates_in_github w self tr cv u r rel True (Some t) upd fs dd m args =
          (res, self',
           tr @ [Get \<lparr>url = api_url u r rel,
                      headers = Some [(''Authorization'', ''token '' @ t),
                                      (''Accept'', ''application/vnd.github.v3+json'')],
                      timeout = None\<rparr>] @ rest))
   \<and> (\<exists>res.
        update_from_github w self tr u r files dd tv True (Some t) m args =
          (res, self,
           (if dd = None then tr @ [no_directory_warning] else tr) @
           [Get \<lparr>url = api_url u r (py_format tv),
                 headers = Some [(''Authorization'', ''token '' @ t),
                                 (''Accept'', ''application/vnd.github.v3+json'')],
                 timeout = None\<rparr>]))
   \<and> (\<exists>res self' rest.
        check_for_updates_in_github w self tr cv u r rel False (Some t) upd fs dd m args =
          (res, self',
           tr @ [Warn PrivateRepositoryWarning
                   ''The private parameter is set to False, however, an API_TOKEN has been provided. This practice is discouraged.'',
                 Get \<lparr>url = api_url u r rel,
                      headers = Some [(''Authorization'', ''token '' @ t),
                                      (''Accept'', ''application/vnd.github.v3+json'')],
                      timeout = None\<rparr>] @ rest)
        \<and> (\<forall>e. res \<noteq> Inl (GitHubTokenErr e)))
   \<and> (\<exists>res.
        update_from_github w self tr u r files dd tv False (Some t) m args =
          (res, self,
           (if dd = None then tr @ [no_directory_warning] else tr) @
           [Warn PrivateRepositoryWarning
              ''The private parameter is set to False, however, an API_TOKEN has been provided. This practice is discouraged.'',
            Get \<lparr>url = api_url u r (py_format tv),
                 headers = Some [(''Authorization'', ''token '' @ t),
                                 (''Accept'', ''application/vnd.github.v3+json'')],
                 timeout = None\<rparr>])
        \<and> (\<forall>e. res \<noteq> Inl (GitHubTokenErr e)))"
proof -
  have 1: "check_for_updates_in_github w self tr cv u r rel True None upd fs dd m args =
     (Inl (GitHubTokenErr
        ''The private parameter is set to True, however, no API Token was provided.''), self, tr)"
    by (simp add: check_for_updates_in_github_def define_headers_simps)
  have 2: "update_from_github w self tr u r files dd tv True None m args =
     (Inl (GitHubTokenErr
        ''The private parameter is set to True, however, no API Token was provided.''), self,
      if dd = None then tr @ [no_directory_warning] else tr)"
    by (simp add: update_from_github_def define_headers_simps)
  have c3: "\<exists>res self' rest.
        check_for_updates_in_github w self tr cv u r rel True (Some t) upd fs dd m args =
          (res, self',
           tr @ [Get \<lparr>url = api_url u r rel,
                      headers = Some [(''Authorization'', ''token '' @ t),
                                      (''Accept'', ''application/vnd.github.v3+json'')],
                      timeout = None\<rparr>] @ rest)"
    using check_trace[OF define_headers_simps(2)[of t], where w=w and self=self and tr=tr and cv=cv and u=u
        and r=r and rel=rel and upd=upd and fs=fs and dd=dd and m=m and args=args]
    by (auto simp: token_headers_def)
  have c4: "\<exists>res.
        update_from_github w self tr u r files dd tv True (Some t) m args =
          (res, self,
           (if dd = None then tr @ [no_directory_warning] else tr) @
           [Get \<lparr>url = api_url u r (py_format tv),
                 headers = Some [(''Authorization'', ''token '' @ t),
                                 (''Accept'', ''application/vnd.github.v3+json'')],
                 timeout = None\<rparr>])"
    using update_from_github_trace[OF define_headers_simps(2)[of t], where w=w and self=self and tr=tr
        and u=u and r=r and files=files and dd=dd and tv=tv and m=m and args=args]
    by (auto simp: token_headers_def)
  have c5: "\<exists>res self' rest.
        check_for_updates_in_github w self tr cv u r rel False (Some t) upd fs dd m args =
          (res, self',
           tr @ [Warn PrivateRepositoryWarning
                   ''The private parameter is set to False, however, an API_TOKEN has been provided. This practice is discouraged.'',
                 Get \<lparr>url = api_url u r rel,
                      headers = Some [(''Authorization'', ''token '' @ t),
                                      (''Accept'', ''application/vnd.github.v3+json'')],
                      timeout = None\<rparr>] @ rest)
        \<and> (\<forall>e. res \<noteq> Inl (GitHubTokenErr e))"
    using check_trace[OF define_headers_simps(3)[of t], where w=w and self=self and tr=tr and cv=cv and u=u
        and r=r and rel=rel and upd=upd and fs=fs and dd=dd and m=m and args=args]
    by (auto simp: token_headers_def)
  have c6: "\<exists>res.
        update_from_github w self tr u r files dd tv False (Some t) m args =
          (res, self,
           (if dd = None then tr @ [no_directory_warning] else tr) @
           [Warn PrivateRepositoryWarning
              ''The private parameter is set to False, however, an API_TOKEN has been provided. This practice is discouraged.'',
            Get \<lparr>url = api_url u r (py_format tv),
                 headers = Some [(''Authorization'', ''token '' @ t),
                                 (''Accept'', ''application/vnd.github.v3+json'')],
                 timeout = None\<rparr>])
        \<and> (\<forall>e. res \<noteq> Inl (GitHubTokenErr e))"
    using update_from_github_trace[OF define_headers_simps(3)[of t], where w=w and self=self and tr=tr
        and u=u and r=r and files=files and dd=dd and tv=tv and m=m and args=args]
    by (auto simp: token_headers_def)
  show ?thesis using 1 2 c3 c4 c5 c6 by blast
qed

text \<open>
  Claim C8. Once the headers are defined and the request is answered: if
  \<^verbatim>\<open>raise_for_status\<close> raises, the call fails with \<^verbatim>\<open>ServerResponseErr\<close> wrapping the
  text of that exception; if the decoded payload has no \<^verbatim>\<open>tag_name\<close>, it fails with
  \<^verbatim>\<open>ReleaseTagErr\<close>; both whatever the current version is, even a malformed one, so
  no comparison took place. Only when the tag is extracted does the call go on to the
  comparison with the current version.
\<close>

theorem response_handling:
  assumes "define_headers is_private tok = Inr (hdrs, warned)"
    and "net w (tr @ warned) \<lparr>url = api_url u r rel, headers = hdrs, timeout = None\<rparr> = Inr response"
  shows "(raise_for_status response = Some d \<longrightarrow>
            check_for_updates_in_github w self tr cv u r rel is_private tok upd fs dd m args =
              (Inl (ServerResponseErr (''Failed to connect: '' @ d)), self,
               tr @ warned @ [Get \<lparr>url = api_url u r rel, headers = hdrs, timeout = None\<rparr>]))
       \<and> (raise_for_status response = None \<and> json_body response = Some release_json \<and>
          getitem release_json ''tag_name'' = Inl e \<longrightarrow>
            check_for_updates_in_github w self tr cv u r rel is_private tok upd fs dd m args =
              (Inl (ReleaseTagErr e), self,
               tr @ warned @ [Get \<lparr>url = api_url u r rel, headers = hdrs, timeout = None\<rparr>]))
       \<and> (raise_for_status response = None \<and> json_body response = Some release_json \<and>
          getitem release_json ''tag_name'' = Inr tag \<longrightarrow>
            check_for_updates_in_github w self tr cv u r rel is_private tok upd fs dd m args =
              check_release_tag w self
                (tr @ warned @ [Get \<lparr>url = api_url u r rel, headers = hdrs, timeout = None\<rparr>])
                tag cv u r is_private tok upd fs dd m args)"
  using assms by (simp add: check_for_updates_in_github_def)

theorem response_handling_witness:
  "check_for_updates_in_github (serving (error_response 404 ''404 Client Error'')) VersionFlow_init []
      ''abc'' ''u'' ''r'' ''latest'' False None False None None (None :: unit option) [] =
     (Inl (ServerResponseErr ''Failed to connect: 404 Client Error''), VersionFlow_init,
      [Get \<lparr>url = ''https://api.github.com/repos/u/r/releases/latest'', headers = None,
            timeout = None\<rparr>])
   \<and> check_for_updates_in_github (serving untagged_response) VersionFlow_init []
      ''abc'' ''u'' ''r'' ''latest'' False None False None None (None :: unit option) [] =
     (Inl (ReleaseTagErr (KeyError ''tag_name'')), VersionFlow_init,
      [Get \<lparr>url = ''https://api.github.com/repos/u/r/releases/latest'', headers = None,
            timeout = None\<rparr>])
   \<and> check_for_updates_in_github (serving (release_response ''1.1.0'')) VersionFlow_init []
      ''abc'' ''u'' ''r'' ''latest'' False None False None None (None :: unit option) [] =
     (Inl ValueError, VersionFlow_init,
      [Get \<lparr>url = ''https://api.github.com/repos/u/r/releases/latest'', headers = None,
            timeout = None\<rparr>])"
proof -
  have h: "define_headers False None = Inr (None, [])"
    by (simp add: define_headers_def)
  have u: "api_url ''u'' ''r'' ''latest'' = ''https://api.github.com/repos/u/r/releases/latest''"
    by (simp add: api_url_def)
  have n: "net (serving x) ([] @ []) \<lparr>url = api_url ''u'' ''r'' ''latest'', headers = None, timeout = None\<rparr> = Inr x" for x
    by (simp add: serving_def)
  have a: "raise_for_status (error_response 404 ''404 Client Error'') = Some ''404 Client Error''"
    by (simp add: error_response_def)
  have b: "raise_for_status untagged_response = None \<and>
           json_body untagged_response = Some (JObject [(''name'', JString ''release'')]) \<and>
           getitem (JObject [(''name'', JString ''release'')]) ''tag_name'' = Inl (KeyError ''tag_name'')"
    by (simp add: untagged_response_def)
  have c: "raise_for_status (release_response ''1.1.0'') = None \<and>
           json_body (release_response ''1.1.0'') =
             Some (JObject [(''name'', JString ''release''), (''tag_name'', JString ''1.1.0'')]) \<and>
           getitem (JObject [(''name'', JString ''release''), (''tag_name'', JString ''1.1.0'')])
             ''tag_name'' = Inr (JString ''1.1.0'')"
    by (simp add: release_response_def)
  have d: "check_release_tag (serving (release_response ''1.1.0'')) VersionFlow_init
             [Get \<lparr>url = ''https://api.github.com/repos/u/r/releases/latest'', headers = None,
                   timeout = None\<rparr>]
             (JString ''1.1.0'') ''abc'' ''u'' ''r'' False None False None None (None :: unit option) [] =
           (Inl ValueError, VersionFlow_init,
            [Get \<lparr>url = ''https://api.github.com/repos/u/r/releases/latest'', headers = None,
                  timeout = None\<rparr>])"
    by code_simp
  show ?thesis
    using response_handling[OF h n, of "error_response 404 ''404 Client Error''" "''404 Client Error''"
            VersionFlow_init "''abc''" False None None "None :: unit option" "[]"] a
          response_handling[OF h n, of untagged_response _ VersionFlow_init "''abc''" False None None
            "None :: unit option" "[]" "JObject [(''name'', JString ''release'')]" "KeyError ''tag_name''"] b
          response_handling[OF h n, of "release_response ''1.1.0''" _ VersionFlow_init "''abc''" False None None
            "None :: unit option" "[]"
            "JObject [(''name'', JString ''release''), (''tag_name'', JString ''1.1.0'')]" _ "JString ''1.1.0''"] c d
    by (simp add: u)
qed

text \<open>
  Claim C2, as the code has it. With \<^verbatim>\<open>update=True\<close> and an update available, if no
  list of files is given (\<^verbatim>\<open>files_to_download = None\<close>) the call fails with
  \<^verbatim>\<open>FilesNotSetErr\<close>; the only request issued is the one for the release, so
  \<^verbatim>\<open>update_from_github\<close> was not entered.
\<close>

theorem update_without_files:
  assumes "define_headers is_private tok = Inr (hdrs, warned)"
    and "net w (tr @ warned) \<lparr>url = api_url u r rel, headers = hdrs, timeout = None\<rparr> = Inr response"
    and "raise_for_status response = None"
    and "json_body response = Some release_json"
    and "getitem release_json ''tag_name'' = Inr tag"
    and "Version_of tag = Inr v"
    and "is_greater_than v cv = Inr True"
  shows "check_for_updates_in_github w self tr cv u r rel is_private tok True None dd m args =
           (Inl (FilesNotSetErr ''Update parameter is set to True but no Files are provided.''),
            self\<lparr>update_available := True\<rparr>,
            tr @ warned @ [Get \<lparr>url = api_url u r rel, headers = hdrs, timeout = None\<rparr>])"
  using assms by (simp add: check_for_updates_in_github_def check_release_tag_def)

theorem update_without_files_witness:
  "is_greater_than \<lparr>version = ''v1.1.0''\<rparr> ''1.0.0'' = Inr True \<and>
   check_for_updates_in_github (serving (release_response ''1.1.0'')) VersionFlow_init []
      ''1.0.0'' ''u'' ''r'' ''latest'' False None True None (Some ''d'') (None :: unit option) [] =
     (Inl (FilesNotSetErr ''Update parameter is set to True but no Files are provided.''),
      \<lparr>internet_status = False, update_available = True\<rparr>,
      [Get \<lparr>url = ''https://api.github.com/repos/u/r/releases/latest'', headers = None,
            timeout = None\<rparr>])"
proof -
  have h: "define_headers False None = Inr (None, [])"
    by (simp add: define_headers_def)
  have u: "api_url ''u'' ''r'' ''latest'' = ''https://api.github.com/repos/u/r/releases/latest''"
    by (simp add: api_url_def)
  have n: "net (serving (release_response ''1.1.0'')) ([] @ [])
             \<lparr>url = api_url ''u'' ''r'' ''latest'', headers = None, timeout = None\<rparr>
           = Inr (release_response ''1.1.0'')"
    by (simp add: serving_def)
  have r: "raise_for_status (release_response ''1.1.0'') = None"
    by (simp add: release_response_def)
  have j: "json_body (release_response ''1.1.0'') =
             Some (JObject [(''name'', JString ''release''), (''tag_name'', JString ''1.1.0'')])"
    by (simp add: release_response_def)
  have g: "getitem (JObject [(''name'', JString ''release''), (''tag_name'', JString ''1.1.0'')])
             ''tag_name'' = Inr (JString ''1.1.0'')"
    by simp
  have v: "Version_of (JString ''1.1.0'') = Inr \<lparr>version = ''v1.1.0''\<rparr>"
    by code_simp
  have c: "is_greater_than \<lparr>version = ''v1.1.0''\<rparr> ''1.0.0'' = Inr True"
    by code_simp
  show ?thesis
    using update_without_files[OF h n r j g v c, of VersionFlow_init "Some ''d''" "None :: unit option" "[]"] c
    by (simp add: u VersionFlow_init_def)
qed

text \<open>
  Claim C2 as first stated also covers the empty list. The guard compares with
  \<^verbatim>\<open>None\<close> only: with \<^verbatim>\<open>files_to_download = []\<close> the call goes on to
  \<^verbatim>\<open>update_from_github\<close>, which issues the second request, and returns \<^verbatim>\<open>None\<close>.
\<close>

theorem update_with_empty_file_list:
  "check_for_updates_in_github (serving (release_response ''1.1.0'')) VersionFlow_init []
      ''1.0.0'' ''u'' ''r'' ''latest'' False None True (Some []) (Some ''d'') (None :: unit option) [] =
     (Inr None, \<lparr>internet_status = False, update_available = True\<rparr>,
      [Get \<lparr>url = ''https://api.github.com/repos/u/r/releases/latest'', headers = None,
            timeout = None\<rparr>,
       Get \<lparr>url = ''https://api.github.com/repos/u/r/releases/latest'', headers = None,
            timeout = None\<rparr>])"
  by code_simp

text \<open>
  Claim C4, as the code has it. When the triple of the remote tag is strictly less
  than the triple of the current version, the call returns \<^verbatim>\<open>None\<close> and leaves the
  object, and so the flag \<open>update_available\<close>, as it was (false on a new object).
\<close>

theorem older_release_no_update:
  assumes "define_headers is_private tok = Inr (hdrs, warned)"
    and "net w (tr @ warned) \<lparr>url = api_url u r rel, headers = hdrs, timeout = None\<rparr> = Inr response"
    and "raise_for_status response = None"
    and "json_body response = Some release_json"
    and "getitem release_json ''tag_name'' = Inr (JString tag)"
    and "parse tag = Inr remote"
    and "parse cv = Inr current"
    and "tuple_gt current remote"
  shows "check_for_updates_in_github w self tr cv u r rel is_private tok upd fs dd m args =
           (Inr None, self,
            tr @ warned @ [Get \<lparr>url = api_url u r rel, headers = hdrs, timeout = None\<rparr>])"
proof -
  have "Version_of (JString tag) = Inr \<lparr>version = format_version remote\<rparr>"
    using assms(6) by (simp add: Version_init_def)
  moreover have "is_greater_than \<lparr>version = format_version remote\<rparr> cv = Inr False"
    using is_greater_than_canonical[OF assms(7), of remote] assms(8) by simp
  ultimately show ?thesis
    using assms(1-5) by (simp add: check_for_updates_in_github_def check_release_tag_def)
qed

theorem older_release_no_update_witness:
  "tuple_gt (2, 0, 0) (1, 9, 9) \<and>
   check_for_updates_in_github (serving (release_response ''v1.9.9''))
      \<lparr>internet_status = True, update_available = False\<rparr> []
      ''2.0.0'' ''u'' ''r'' ''latest'' False None True None None (None :: unit option) [] =
     (Inr None, \<lparr>internet_status = True, update_available = False\<rparr>,
      [Get \<lparr>url = ''https://api.github.com/repos/u/r/releases/latest'', headers = None,
            timeout = None\<rparr>])"
proof -
  have h: "define_headers False None = Inr (None, [])"
    by (simp add: define_headers_def)
  have u: "api_url ''u'' ''r'' ''latest'' = ''https://api.github.com/repos/u/r/releases/latest''"
    by (simp add: api_url_def)
  have n: "net (serving (release_response ''v1.9.9'')) ([] @ [])
             \<lparr>url = api_url ''u'' ''r'' ''latest'', headers = None, timeout = None\<rparr>
           = Inr (release_response ''v1.9.9'')"
    by (simp add: serving_def)
  have r: "raise_for_status (release_response ''v1.9.9'') = None"
    by (simp add: release_response_def)
  have j: "json_body (release_response ''v1.9.9'') =
             Some (JObject [(''name'', JString ''release''), (''tag_name'', JString ''v1.9.9'')])"
    by (simp add: release_response_def)
  have g: "getitem (JObject [(''name'', JString ''release''), (''tag_name'', JString ''v1.9.9'')])
             ''tag_name'' = Inr (JString ''v1.9.9'')"
    by simp
  have p1: "parse ''v1.9.9'' = Inr (1, 9, 9)" by code_simp
  have p2: "parse ''2.0.0'' = Inr (2, 0, 0)" by code_simp
  have gt: "tuple_gt (2, 0, 0) (1, 9, 9)" by (simp add: tuple_gt_def)
  show ?thesis
    using older_release_no_update[OF h n r j g p1 p2 gt,
            of "\<lparr>internet_status = True, update_available = False\<rparr>" True None None
               "None :: unit option" "[]"] gt
    by (simp add: u)
qed

text \<open>
  Claim C4 as first stated covers a remote tag equal to the current version and says
  the flag is cleared. On equal versions the call returns the tag and sets the flag
  (the comparison of \<^verbatim>\<open>is_greater_than\<close> is not strict); and on an older remote tag
  a flag set by an earlier call stays set.
\<close>

theorem equal_or_stale_flag:
  "check_for_updates_in_github (serving (release_response ''2.0.0'')) VersionFlow_init []
      ''2.0.0'' ''u'' ''r'' ''latest'' False None False None None (None :: unit option) [] =
     (Inr (Some ''2.0.0''), \<lparr>internet_status = False, update_available = True\<rparr>,
      [Get \<lparr>url = ''https://api.github.com/repos/u/r/releases/latest'', headers = None,
            timeout = None\<rparr>])
   \<and> check_for_updates_in_github (serving (release_response ''1.0.0''))
      \<lparr>internet_status = False, update_available = True\<rparr> []
      ''2.0.0'' ''u'' ''r'' ''latest'' False None False None None (None :: unit option) [] =
     (Inr None, \<lparr>internet_status = False, update_available = True\<rparr>,
      [Get \<lparr>url = ''https://api.github.com/repos/u/r/releases/latest'', headers = None,
            timeout = None\<rparr>])"
  by code_simp

text \<open>
  Claim C3 says that \<^verbatim>\<open>update_from_github\<close> retrieves every listed file and then
  calls the hook. The method ends after the check of the response: on a successful
  call with two files and a hook, its only effect is the request for the release.
\<close>

theorem update_from_github_only_requests:
  "update_from_github (serving (release_response ''1.1.0'')) VersionFlow_init []
      ''u'' ''r'' [''a.txt'', ''b.txt''] (Some ''d'') (PyStr ''latest'') False None (Some ())
      [PyStr ''x''] =
     (Inr (), VersionFlow_init,
      [Get \<lparr>url = ''https://api.github.com/repos/u/r/releases/latest'', headers = None,
            timeout = None\<rparr>])"
  by code_simp

end
